theory Spec2Isabelle
  imports Main "HOL-Library.Word"
begin

unbundle bit_operations_syntax

section \<open>Instruction.h: data model\<close>

text \<open>
  The instruction word is the private member \<open>sc_int<32> m_instr\<close>. Every accessor
  returns \<open>int32_t\<close>; a value of that type is kept as its 32-bit pattern and read as a
  signed number with \<open>sint\<close>. The SystemC part and bit selections convert to a 64-bit
  unsigned integer before C++ arithmetic is applied to them.
\<close>

type_synonym sc_int32 = "32 word"
type_synonym int32_t = "32 word"
type_synonym uint64 = "64 word"

text \<open>The enumeration \<open>opCodes\<close> (Instruction.h, lines 17 to 62).\<close>

datatype opCodes =
    OP_LUI | OP_AUIPC | OP_JAL | OP_JALR
  | OP_BEQ | OP_BNE | OP_BLT | OP_BGE | OP_BLTU | OP_BGEU
  | OP_LB | OP_LH | OP_LW | OP_LBU | OP_LHU
  | OP_SB | OP_SH | OP_SW
  | OP_ADDI | OP_SLTI | OP_SLTIU | OP_XORI | OP_ORI | OP_ANDI
  | OP_SLLI | OP_SRLI | OP_SRAI
  | OP_ADD | OP_SUB | OP_SLL | OP_SLT | OP_SLTU | OP_XOR
  | OP_SRL | OP_SRA | OP_OR | OP_AND
  | OP_ERROR

text \<open>
  The enumeration \<open>Codes\<close> (Instruction.h, lines 65 to 119). Its enumerators are
  compared with the \<open>int32_t\<close> results of the field accessors, so each one is
  a constant of that type.
\<close>

definition LUI :: int32_t where "LUI = 0b0110111"
definition AUIPC :: int32_t where "AUIPC = 0b0010111"
definition JAL :: int32_t where "JAL = 0b1101111"
definition JALR :: int32_t where "JALR = 0b1100111"

definition BEQ :: int32_t where "BEQ = 0b1100011"
definition BEQ_F :: int32_t where "BEQ_F = 0b000"
definition BNE_F :: int32_t where "BNE_F = 0b001"
definition BLT_F :: int32_t where "BLT_F = 0b100"
definition BGE_F :: int32_t where "BGE_F = 0b101"
definition BLTU_F :: int32_t where "BLTU_F = 0b110"
definition BGEU_F :: int32_t where "BGEU_F = 0b111"

definition LB :: int32_t where "LB = 0b0000011"
definition LB_F :: int32_t where "LB_F = 0b000"
definition LH_F :: int32_t where "LH_F = 0b001"
definition LW_F :: int32_t where "LW_F = 0b010"
definition LBU_F :: int32_t where "LBU_F = 0b100"
definition LHU_F :: int32_t where "LHU_F = 0b101"

definition SB :: int32_t where "SB = 0b0100011"
definition SB_F :: int32_t where "SB_F = 0b000"
definition SH_F :: int32_t where "SH_F = 0b001"
definition SW_F :: int32_t where "SW_F = 0b010"

definition ADDI :: int32_t where "ADDI = 0b0010011"
definition ADDI_F :: int32_t where "ADDI_F = 0b000"
definition SLTI_F :: int32_t where "SLTI_F = 0b010"
definition SLTIU_F :: int32_t where "SLTIU_F = 0b011"
definition XORI_F :: int32_t where "XORI_F = 0b100"
definition ORI_F :: int32_t where "ORI_F = 0b110"
definition ANDI_F :: int32_t where "ANDI_F = 0b111"
definition SLLI_F :: int32_t where "SLLI_F = 0b001"
definition SRLI_F :: int32_t where "SRLI_F = 0b101"
definition SRLI_F7 :: int32_t where "SRLI_F7 = 0b0000000"
definition SRAI_F7 :: int32_t where "SRAI_F7 = 0b0100000"

definition ADD :: int32_t where "ADD = 0b0110011"
definition ADD_F :: int32_t where "ADD_F = 0b000"
definition SUB_F :: int32_t where "SUB_F = 0b000"
definition ADD_F7 :: int32_t where "ADD_F7 = 0b0000000"
definition SUB_F7 :: int32_t where "SUB_F7 = 0b0100000"

definition SLL_F :: int32_t where "SLL_F = 0b001"
definition SLT_F :: int32_t where "SLT_F = 0b010"
definition SLTU_F :: int32_t where "SLTU_F = 0b011"
definition XOR_F :: int32_t where "XOR_F = 0b100"
definition SRL_F :: int32_t where "SRL_F = 0b101"
definition SRA_F :: int32_t where "SRA_F = 0b101"
definition SRL_F7 :: int32_t where "SRL_F7 = 0b0000000"
definition SRA_F7 :: int32_t where "SRA_F7 = 0b0100000"
definition OR_F :: int32_t where "OR_F = 0b110"
definition AND_F :: int32_t where "AND_F = 0b111"

section \<open>The SystemC selections and the C++ conversions the accessors rely on\<close>

text \<open>
  \<open>m_instr.range(left, right)\<close> is SystemC's part selection on \<open>sc_int\<close>: the bits
  \<open>left\<close> down to \<open>right\<close> of the word, as an unsigned 64-bit value whose bit 0 is bit
  \<open>right\<close> of the word (no sign extension).
\<close>

definition sc_range :: "sc_int32 \<Rightarrow> nat \<Rightarrow> nat \<Rightarrow> uint64" where
  "sc_range m left right = take_bit (left + 1 - right) (drop_bit right (ucast m))"

text \<open>\<open>m_instr[i]\<close> is SystemC's bit selection: 1 when bit \<open>i\<close> is set, 0 otherwise.\<close>

definition sc_bit :: "sc_int32 \<Rightarrow> nat \<Rightarrow> uint64" where
  "sc_bit m i = (if bit m i then 1 else 0)"

text \<open>
  Conversion of a 64-bit unsigned value to \<open>int32_t\<close> (a \<open>return\<close> or an assignment to
  \<open>aux\<close>): the low 32 bits are kept.
\<close>

definition to_int32 :: "uint64 \<Rightarrow> int32_t" where
  "to_int32 v = ucast v"

text \<open>
  \<open>aux |= v\<close> with \<open>aux\<close> an \<open>int32_t\<close> and \<open>v\<close> a 64-bit unsigned value: \<open>aux\<close> is
  sign-extended to 64 bits, the disjunction is taken there, and the result is
  converted back to \<open>int32_t\<close>.
\<close>

definition or_assign :: "int32_t \<Rightarrow> uint64 \<Rightarrow> int32_t" where
  "or_assign aux v = to_int32 ((scast aux :: uint64) OR v)"

section \<open>Instruction.h: field accessors\<close>

definition opcode :: "sc_int32 \<Rightarrow> int32_t" where
  "opcode m = to_int32 (sc_range m 6 0)"

definition rd :: "sc_int32 \<Rightarrow> int32_t" where
  "rd m = to_int32 (sc_range m 11 7)"

definition funct3 :: "sc_int32 \<Rightarrow> int32_t" where
  "funct3 m = to_int32 (sc_range m 14 12)"

definition rs1 :: "sc_int32 \<Rightarrow> int32_t" where
  "rs1 m = to_int32 (sc_range m 19 15)"

definition rs2 :: "sc_int32 \<Rightarrow> int32_t" where
  "rs2 m = to_int32 (sc_range m 24 20)"

definition funct7 :: "sc_int32 \<Rightarrow> int32_t" where
  "funct7 m = to_int32 (sc_range m 31 25)"

section \<open>Instruction.h: immediate accessors\<close>

text \<open>
  The sign-extension masks are the \<open>int\<close> expressions
  \<open>(0b11111111111111111111) << 12\<close> and \<open>(0b111111111111) << 20\<close>, whose 32-bit
  patterns are combined with \<open>aux\<close> by a plain 32-bit disjunction.
\<close>

definition imm_I :: "sc_int32 \<Rightarrow> int32_t" where
  "imm_I m =
    (let aux = (0 :: int32_t);
         aux = to_int32 (sc_range m 31 20);
         aux = (if sc_bit m 31 = 1
                then aux OR push_bit 12 0b11111111111111111111 else aux)
     in aux)"

definition imm_S :: "sc_int32 \<Rightarrow> int32_t" where
  "imm_S m =
    (let aux = (0 :: int32_t);
         aux = to_int32 (push_bit 5 (sc_range m 31 25));
         aux = or_assign aux (sc_range m 11 7);
         aux = (if sc_bit m 31 = 1
                then aux OR push_bit 12 0b11111111111111111111 else aux)
     in aux)"

definition imm_U :: "sc_int32 \<Rightarrow> int32_t" where
  "imm_U m = to_int32 (sc_range m 31 12)"

definition imm_B :: "sc_int32 \<Rightarrow> int32_t" where
  "imm_B m =
    (let aux = (0 :: int32_t);
         aux = or_assign aux (push_bit 11 (sc_bit m 7));
         aux = or_assign aux (push_bit 5 (sc_range m 30 25));
         aux = or_assign aux (push_bit 12 (sc_bit m 31));
         aux = or_assign aux (push_bit 1 (sc_range m 11 8));
         aux = (if sc_bit m 31 = 1
                then aux OR push_bit 12 0b11111111111111111111 else aux)
     in aux)"

definition imm_J :: "sc_int32 \<Rightarrow> int32_t" where
  "imm_J m =
    (let aux = (0 :: int32_t);
         aux = to_int32 (push_bit 20 (sc_bit m 31));
         aux = or_assign aux (push_bit 12 (sc_range m 19 12));
         aux = or_assign aux (push_bit 11 (sc_bit m 20));
         aux = or_assign aux (push_bit 1 (sc_range m 30 21));
         aux = (if sc_bit m 31 = 1
                then aux OR push_bit 20 0b111111111111 else aux)
     in aux)"

definition csr :: "sc_int32 \<Rightarrow> int32_t" where
  "csr m = imm_I m"

section \<open>Instruction::decode\<close>

text \<open>
  Modelled from the spec: the body of \<open>Instruction::decode()\<close>. Instruction.h only
  declares it (line 270); the file that defines it is not among the sources. Section 4.1
  of the specification describes it as a two-level dispatch: \<open>opcode()\<close> selects the
  family (upper immediate and jumps, branch, load, store, immediate arithmetic, register
  arithmetic); inside a family \<open>funct3()\<close> selects the operation; where \<open>funct3\<close> stands
  for two operations (add and subtract, logical and arithmetic right shift) \<open>funct7()\<close>
  decides, \<open>0b0100000\<close> for the subtract and arithmetic-shift variant; every combination
  outside the table gives the invalid tag. The keys compared are the enumerators of
  \<open>Codes\<close> above, which are part of the sources.
\<close>

definition decode :: "sc_int32 \<Rightarrow> opCodes" where
  "decode m =
    (if opcode m = LUI then OP_LUI
     else if opcode m = AUIPC then OP_AUIPC
     else if opcode m = JAL then OP_JAL
     else if opcode m = JALR then OP_JALR
     else if opcode m = BEQ then
       (if funct3 m = BEQ_F then OP_BEQ
        else if funct3 m = BNE_F then OP_BNE
        else if funct3 m = BLT_F then OP_BLT
        else if funct3 m = BGE_F then OP_BGE
        else if funct3 m = BLTU_F then OP_BLTU
        else if funct3 m = BGEU_F then OP_BGEU
        else OP_ERROR)
     else if opcode m = LB then
       (if funct3 m = LB_F then OP_LB
        else if funct3 m = LH_F then OP_LH
        else if funct3 m = LW_F then OP_LW
        else if funct3 m = LBU_F then OP_LBU
        else if funct3 m = LHU_F then OP_LHU
        else OP_ERROR)
     else if opcode m = SB then
       (if funct3 m = SB_F then OP_SB
        else if funct3 m = SH_F then OP_SH
        else if funct3 m = SW_F then OP_SW
        else OP_ERROR)
     else if opcode m = ADDI then
       (if funct3 m = ADDI_F then OP_ADDI
        else if funct3 m = SLTI_F then OP_SLTI
        else if funct3 m = SLTIU_F then OP_SLTIU
        else if funct3 m = XORI_F then OP_XORI
        else if funct3 m = ORI_F then OP_ORI
        else if funct3 m = ANDI_F then OP_ANDI
        else if funct3 m = SLLI_F then OP_SLLI
        else if funct3 m = SRLI_F then
          (if funct7 m = SRLI_F7 then OP_SRLI
           else if funct7 m = SRAI_F7 then OP_SRAI
           else OP_ERROR)
        else OP_ERROR)
     else if opcode m = ADD then
       (if funct3 m = ADD_F then
          (if funct7 m = ADD_F7 then OP_ADD
           else if funct7 m = SUB_F7 then OP_SUB
           else OP_ERROR)
        else if funct3 m = SLL_F then OP_SLL
        else if funct3 m = SLT_F then OP_SLT
        else if funct3 m = SLTU_F then OP_SLTU
        else if funct3 m = XOR_F then OP_XOR
        else if funct3 m = SRL_F then
          (if funct7 m = SRL_F7 then OP_SRL
           else if funct7 m = SRA_F7 then OP_SRA
           else OP_ERROR)
        else if funct3 m = OR_F then OP_OR
        else if funct3 m = AND_F then OP_AND
        else OP_ERROR)
     else OP_ERROR)"

text \<open>
  The known table, read off the enumeration \<open>Codes\<close>: one entry for each defined
  instruction, keyed by its opcode, by its \<open>funct3\<close> value where \<open>Codes\<close> has an \<open>_F\<close>
  enumerator for it, and by its \<open>funct7\<close> value where \<open>Codes\<close> has an \<open>_F7\<close> enumerator
  for it.
\<close>

type_synonym table_entry = "int32_t \<times> int32_t option \<times> int32_t option \<times> opCodes"

definition known_table :: "table_entry list" where
  "known_table =
    [(LUI, None, None, OP_LUI),
     (AUIPC, None, None, OP_AUIPC),
     (JAL, None, None, OP_JAL),
     (JALR, None, None, OP_JALR),
     (BEQ, Some BEQ_F, None, OP_BEQ),
     (BEQ, Some BNE_F, None, OP_BNE),
     (BEQ, Some BLT_F, None, OP_BLT),
     (BEQ, Some BGE_F, None, OP_BGE),
     (BEQ, Some BLTU_F, None, OP_BLTU),
     (BEQ, Some BGEU_F, None, OP_BGEU),
     (LB, Some LB_F, None, OP_LB),
     (LB, Some LH_F, None, OP_LH),
     (LB, Some LW_F, None, OP_LW),
     (LB, Some LBU_F, None, OP_LBU),
     (LB, Some LHU_F, None, OP_LHU),
     (SB, Some SB_F, None, OP_SB),
     (SB, Some SH_F, None, OP_SH),
     (SB, Some SW_F, None, OP_SW),
     (ADDI, Some ADDI_F, None, OP_ADDI),
     (ADDI, Some SLTI_F, None, OP_SLTI),
     (ADDI, Some SLTIU_F, None, OP_SLTIU),
     (ADDI, Some XORI_F, None, OP_XORI),
     (ADDI, Some ORI_F, None, OP_ORI),
     (ADDI, Some ANDI_F, None, OP_ANDI),
     (ADDI, Some SLLI_F, None, OP_SLLI),
     (ADDI, Some SRLI_F, Some SRLI_F7, OP_SRLI),
     (ADDI, Some SRLI_F, Some SRAI_F7, OP_SRAI),
     (ADD, Some ADD_F, Some ADD_F7, OP_ADD),
     (ADD, Some SUB_F, Some SUB_F7, OP_SUB),
     (ADD, Some SLL_F, None, OP_SLL),
     (ADD, Some SLT_F, None, OP_SLT),
     (ADD, Some SLTU_F, None, OP_SLTU),
     (ADD, Some XOR_F, None, OP_XOR),
     (ADD, Some SRL_F, Some SRL_F7, OP_SRL),
     (ADD, Some SRA_F, Some SRA_F7, OP_SRA),
     (ADD, Some OR_F, None, OP_OR),
     (ADD, Some AND_F, None, OP_AND)]"

fun key_matches :: "int32_t \<Rightarrow> int32_t option \<Rightarrow> bool" where
  "key_matches v None = True"
| "key_matches v (Some k) = (v = k)"

fun entry_matches :: "sc_int32 \<Rightarrow> table_entry \<Rightarrow> bool" where
  "entry_matches m (oc, f3, f7, t) =
    (opcode m = oc \<and> key_matches (funct3 m) f3 \<and> key_matches (funct7 m) f7)"

definition in_known_table :: "sc_int32 \<Rightarrow> bool" where
  "in_known_table m = list_ex (entry_matches m) known_table"

section \<open>Placing a displacement into the immediate field of a format\<close>

text \<open>
  The header has no encoder. These definitions follow the specification's round-trip
  property: the bits of a signed displacement are placed into the positions from which
  the accessor of the format reads them, and the other bits of the word are kept.
  \<open>put_field w hi lo x\<close> replaces the bits \<open>hi\<close> down to \<open>lo\<close> of \<open>w\<close> by the low bits of
  \<open>x\<close>; \<open>disp_bits v hi lo\<close> are the bits \<open>hi\<close> down to \<open>lo\<close> of the displacement \<open>v\<close>.
\<close>

definition put_field :: "sc_int32 \<Rightarrow> nat \<Rightarrow> nat \<Rightarrow> 32 word \<Rightarrow> sc_int32" where
  "put_field w hi lo x =
    (w AND NOT (push_bit lo (mask (hi + 1 - lo)))) OR push_bit lo (take_bit (hi + 1 - lo) x)"

definition disp_bits :: "int \<Rightarrow> nat \<Rightarrow> nat \<Rightarrow> 32 word" where
  "disp_bits v hi lo = take_bit (hi + 1 - lo) (drop_bit lo (word_of_int v))"

definition encode_I :: "sc_int32 \<Rightarrow> int \<Rightarrow> sc_int32" where
  "encode_I w v = put_field w 31 20 (disp_bits v 11 0)"

definition encode_S :: "sc_int32 \<Rightarrow> int \<Rightarrow> sc_int32" where
  "encode_S w v =
    (let w = put_field w 31 25 (disp_bits v 11 5);
         w = put_field w 11 7 (disp_bits v 4 0)
     in w)"

definition encode_B :: "sc_int32 \<Rightarrow> int \<Rightarrow> sc_int32" where
  "encode_B w v =
    (let w = put_field w 31 31 (disp_bits v 12 12);
         w = put_field w 30 25 (disp_bits v 10 5);
         w = put_field w 11 8 (disp_bits v 4 1);
         w = put_field w 7 7 (disp_bits v 11 11)
     in w)"

definition encode_J :: "sc_int32 \<Rightarrow> int \<Rightarrow> sc_int32" where
  "encode_J w v =
    (let w = put_field w 31 31 (disp_bits v 20 20);
         w = put_field w 30 21 (disp_bits v 10 1);
         w = put_field w 20 20 (disp_bits v 11 11);
         w = put_field w 19 12 (disp_bits v 19 12)
     in w)"

section \<open>Memory.h\<close>

text \<open>\<open>enum { SIZE = 1024 }\<close> and the backing array \<open>int mem[SIZE]\<close>.\<close>

definition SIZE :: nat where "SIZE = 1024"

type_synonym mem_array = "int32_t list"

definition valid_mem :: "mem_array \<Rightarrow> bool" where
  "valid_mem mem = (length mem = SIZE)"

text \<open>
  The transaction of section 3 of the specification: an address, a direction, the
  payload, a length in bytes and the flag that selects the debug path. The address
  names a word of the backing array (the capacity, 1024, is one past the last address);
  the payload is the sequence of words that the copy moves.
\<close>

datatype direction = Read | Write

record transaction =
  address :: nat
  direction :: direction
  payload :: "int32_t list"
  data_length :: nat
  debug :: bool

datatype response = Completed | Bounds_fault

record outcome =
  status :: response
  mem_after :: mem_array
  payload_after :: "int32_t list"
  latency :: "nat option"

text \<open>
  Modelled from the spec: the body of \<open>Memory::b_transport\<close> (with its debug variant
  \<open>transport_dbg\<close>). Memory.h only declares them (lines 39 and 54); the file that
  defines them is not among the sources. Section 4.2 of the specification: the operation
  validates that address plus length lies within the capacity and otherwise fails with
  an out-of-range fault without any read or write; when the check passes it performs the
  word-aligned copy between the payload and the backing array in the requested
  direction. Sections 3, 6 and 8 fix the units: the array has 1024 addressable words,
  the length is in bytes, four bytes make one word (a fetch of 4 bytes returns one raw
  word), and the address equal to the capacity is one past the end. So a transaction of
  \<open>len\<close> bytes at address \<open>adr\<close> covers the words \<open>adr\<close> up to but excluding
  \<open>adr + word_count len\<close>, where a length that is not a multiple of the word size still
  occupies its last word; it is within the capacity when \<open>adr\<close> is an address of the
  array and the words it covers end at the capacity or before, so that the last word,
  at address \<open>SIZE - 1\<close>, can be read and written. The timed path reports the fixed
  latency \<open>LATENCY\<close>, a constant whose value the header does not give and which is a
  parameter here; the debug path reports none.
\<close>

definition WORD_BYTES :: nat where "WORD_BYTES = 4"

definition word_count :: "nat \<Rightarrow> nat" where
  "word_count len = (len + (WORD_BYTES - 1)) div WORD_BYTES"

definition within_capacity :: "nat \<Rightarrow> nat \<Rightarrow> bool" where
  "within_capacity adr len = (adr < SIZE \<and> adr + word_count len \<le> SIZE)"

definition copy_out :: "mem_array \<Rightarrow> nat \<Rightarrow> nat \<Rightarrow> int32_t list \<Rightarrow> int32_t list" where
  "copy_out mem adr n ptr = take n (drop adr mem) @ drop n ptr"

definition copy_in :: "mem_array \<Rightarrow> nat \<Rightarrow> nat \<Rightarrow> int32_t list \<Rightarrow> mem_array" where
  "copy_in mem adr n ptr =
    take adr mem @ take n ptr @ drop (adr + length (take n ptr)) mem"

definition transact :: "nat \<Rightarrow> mem_array \<Rightarrow> transaction \<Rightarrow> outcome" where
  "transact LATENCY mem txn =
    (if \<not> within_capacity (address txn) (data_length txn) then
       \<lparr>status = Bounds_fault, mem_after = mem, payload_after = payload txn,
        latency = None\<rparr>
     else
       (case direction txn of
          Read \<Rightarrow>
            \<lparr>status = Completed, mem_after = mem,
             payload_after =
               copy_out mem (address txn) (word_count (data_length txn)) (payload txn),
             latency = (if debug txn then None else Some LATENCY)\<rparr>
        | Write \<Rightarrow>
            \<lparr>status = Completed,
             mem_after =
               copy_in mem (address txn) (word_count (data_length txn)) (payload txn),
             payload_after = payload txn,
             latency = (if debug txn then None else Some LATENCY)\<rparr>))"

section \<open>Bits of the selections and conversions\<close>

lemma bit32_bound: "bit (w :: 32 word) k \<Longrightarrow> k < 32"
  using bit_imp_le_length [of w k] by simp

lemma bit_sc_bit: "bit (sc_bit m i) n \<longleftrightarrow> n = 0 \<and> bit m i"
  by (simp add: sc_bit_def bit_simps)

lemma sc_bit_eq_1: "sc_bit m i = 1 \<longleftrightarrow> bit m i"
  by (simp add: sc_bit_def)

lemma bit_sc_range: "bit (sc_range m l r) n \<longleftrightarrow> n < l + 1 - r \<and> bit m (r + n)"
  by (auto simp add: sc_range_def bit_simps dest: bit32_bound)

lemma bit_to_int32: "bit (to_int32 v) n \<longleftrightarrow> n < 32 \<and> bit v n"
  by (auto simp add: to_int32_def bit_simps)

lemma bit_or_assign: "bit (or_assign aux v) n \<longleftrightarrow> n < 32 \<and> (bit aux n \<or> bit v n)"
  by (auto simp add: or_assign_def to_int32_def bit_simps)

lemma bit_ones20: "bit (0b11111111111111111111 :: 32 word) k \<longleftrightarrow> k < 20"
proof -
  have ones: "(0b11111111111111111111 :: 32 word) = mask 20"
    by (simp add: mask_eq_exp_minus_1)
  show ?thesis
    unfolding ones by (auto simp add: bit_mask_iff)
qed

lemma bit_ones12: "bit (0b111111111111 :: 32 word) k \<longleftrightarrow> k < 12"
proof -
  have ones: "(0b111111111111 :: 32 word) = mask 12"
    by (simp add: mask_eq_exp_minus_1)
  show ?thesis
    unfolding ones by (auto simp add: bit_mask_iff)
qed

lemmas sel_bits = bit_sc_bit bit_sc_range bit_to_int32 bit_or_assign bit_ones20 bit_ones12
  sc_bit_eq_1 bit_or_iff bit_push_bit_iff

lemma bit_field:
  "bit (to_int32 (sc_range m l r)) n \<longleftrightarrow> n < l + 1 - r \<and> bit m (r + n)"
  by (auto simp add: bit_to_int32 bit_sc_range dest: bit32_bound)

section \<open>Bits of the immediates\<close>

lemma bit_imm_I:
  "bit (imm_I m) n \<longleftrightarrow> n < 32 \<and> (if n < 12 then bit m (n + 20) else bit m 31)"
  unfolding imm_I_def Let_def
  apply (simp only: sel_bits if_distrib [of "\<lambda>w. bit w n"] bit_0_eq)
  apply (auto dest: bit32_bound simp: add.commute)
  done

lemma bit_imm_S:
  "bit (imm_S m) n \<longleftrightarrow>
     n < 32 \<and> (if n < 5 then bit m (n + 7) else if n < 12 then bit m (n + 20) else bit m 31)"
  unfolding imm_S_def Let_def
  apply (simp only: sel_bits if_distrib [of "\<lambda>w. bit w n"] bit_0_eq)
  apply (auto dest: bit32_bound simp: add.commute)
  done

lemma bit_imm_U: "bit (imm_U m) n \<longleftrightarrow> n < 20 \<and> bit m (n + 12)"
  by (simp add: imm_U_def bit_field add.commute)

lemma bit_imm_B:
  "bit (imm_B m) n \<longleftrightarrow>
     n < 32 \<and> (if n = 0 then False else if n < 5 then bit m (n + 7)
               else if n < 11 then bit m (n + 20)
               else if n = 11 then bit m 7 else bit m 31)"
  unfolding imm_B_def Let_def
  apply (simp only: sel_bits if_distrib [of "\<lambda>w. bit w n"] bit_0_eq)
  apply (auto dest: bit32_bound simp: add.commute)
  done

lemma bit_imm_J:
  "bit (imm_J m) n \<longleftrightarrow>
     n < 32 \<and> (if n = 0 then False else if n < 11 then bit m (n + 20)
               else if n = 11 then bit m 20
               else if n < 20 then bit m n else bit m 31)"
  unfolding imm_J_def Let_def
  apply (simp only: sel_bits if_distrib [of "\<lambda>w. bit w n"] bit_0_eq)
  apply (auto dest: bit32_bound simp: add.commute)
  done

section \<open>Reading a 32-bit pattern as a signed number\<close>

lemma sint_zero_ext:
  fixes w :: "32 word"
  assumes "k \<le> 31" and "\<And>n. k \<le> n \<Longrightarrow> \<not> bit w n"
  shows "0 \<le> sint w \<and> sint w < 2 ^ k"
proof -
  have "sint w = take_bit k (sint w)"
  proof (rule bit_eqI)
    fix n
    show "bit (sint w) n \<longleftrightarrow> bit (take_bit k (sint w)) n"
      using assms(1) assms(2) [of n] assms(2) [of 31]
      by (cases "k \<le> n") (auto simp add: bit_sint_iff bit_take_bit_iff)
  qed
  moreover have "0 \<le> take_bit k (sint w)" and "take_bit k (sint w) < 2 ^ k"
    by simp_all
  ultimately show ?thesis by simp
qed

lemma sint_sign_ext:
  fixes w :: "32 word"
  assumes "k \<le> 31" and "\<And>n. k \<le> n \<Longrightarrow> n < 32 \<Longrightarrow> bit w n = bit w k"
  shows "- (2 ^ k) \<le> sint w \<and> sint w < 2 ^ k"
proof -
  have "sint w = signed_take_bit k (sint w)"
  proof (rule bit_eqI)
    fix n
    show "bit (sint w) n \<longleftrightarrow> bit (signed_take_bit k (sint w)) n"
      using assms(1) assms(2) [of n] assms(2) [of 31]
      by (cases "k \<le> n"; cases "n < 32")
        (auto simp add: bit_sint_iff bit_signed_take_bit_iff min_def dest: bit32_bound)
  qed
  moreover have "- (2 ^ k) \<le> signed_take_bit k (sint w)"
    and "signed_take_bit k (sint w) < 2 ^ k"
    by simp_all
  ultimately show ?thesis by simp
qed

lemma sint_eq_uint:
  fixes w :: "32 word"
  assumes "\<not> bit w 31"
  shows "sint w = uint w"
  using assms by (intro bit_eqI) (auto simp add: bit_sint_iff bit_uint_iff dest: bit32_bound)

lemma even_sint_iff: "even (sint (w :: 32 word)) \<longleftrightarrow> \<not> bit w 0"
  using bit_sint_iff [of w 0] by (simp add: bit_0)

lemma sint_field:
  assumes "l < r + 31"
  shows "0 \<le> sint (to_int32 (sc_range m l r))
    \<and> sint (to_int32 (sc_range m l r)) < 2 ^ (l + 1 - r)"
  using assms by (intro sint_zero_ext) (simp_all add: bit_field)

section \<open>Field accessors\<close>

text \<open>
  C9. For every 32-bit word, also one whose sign bit is set, the field accessors return
  non-negative values bounded by the width of their fields: \<open>opcode()\<close> and \<open>funct7()\<close>
  lie in 0 to 127, \<open>rd()\<close>, \<open>rs1()\<close> and \<open>rs2()\<close> in 0 to 31, \<open>funct3()\<close> in 0 to 7.
\<close>

theorem field_accessors_bounded:
  "0 \<le> sint (opcode m) \<and> sint (opcode m) \<le> 127
   \<and> 0 \<le> sint (rd m) \<and> sint (rd m) \<le> 31
   \<and> 0 \<le> sint (rs1 m) \<and> sint (rs1 m) \<le> 31
   \<and> 0 \<le> sint (rs2 m) \<and> sint (rs2 m) \<le> 31
   \<and> 0 \<le> sint (funct3 m) \<and> sint (funct3 m) \<le> 7
   \<and> 0 \<le> sint (funct7 m) \<and> sint (funct7 m) \<le> 127"
  using sint_field [of 6 0 m] sint_field [of 11 7 m]
    sint_field [of 19 15 m] sint_field [of 24 20 m]
    sint_field [of 14 12 m] sint_field [of 31 25 m]
  by (simp add: opcode_def rd_def rs1_def rs2_def funct3_def funct7_def)

section \<open>The U-type immediate\<close>

text \<open>
  C6. \<open>imm_U()\<close> is never sign-extended: for every 32-bit word, also one with bit 31
  set, it returns the non-negative value of bits 31 down to 12, that is the unsigned
  value of the word divided by \<open>2 ^ 12\<close>; for the word \<open>0x000000B7\<close> it returns 0.
\<close>

theorem imm_U_zero_extended:
  "0 \<le> sint (imm_U m) \<and> sint (imm_U m) = uint m div 2 ^ 12
   \<and> sint (imm_U 0x000000B7) = 0"
proof -
  have eq: "imm_U w = drop_bit 12 w" for w
    by (rule bit_eqI)
      (auto simp add: bit_imm_U bit_drop_bit_eq add.commute dest: bit32_bound)
  have pos: "\<not> bit (imm_U w) 31" for w
    by (simp add: bit_imm_U)
  have val: "sint (imm_U w) = uint w div 2 ^ 12" for w
    using sint_eq_uint [OF pos, of w]
    by (simp add: eq drop_bit_eq_div uint_div_distrib)
  have "0 \<le> sint (imm_U m)"
    using sint_zero_ext [of 20 "imm_U m"] by (simp add: bit_imm_U)
  moreover have "sint (imm_U 0x000000B7) = 0"
    by (simp add: val)
  ultimately show ?thesis
    using val [of m] by simp
qed

section \<open>Branch and jump immediates\<close>

text \<open>
  C10. For every 32-bit word the branch and jump immediates are even and lie in the
  signed range of their format: \<open>imm_B()\<close> in -4096 to 4094 and \<open>imm_J()\<close> in -1048576
  to 1048574.
\<close>

theorem imm_B_imm_J_even_and_bounded:
  "even (sint (imm_B m)) \<and> - 4096 \<le> sint (imm_B m) \<and> sint (imm_B m) \<le> 4094
   \<and> even (sint (imm_J m)) \<and> - 1048576 \<le> sint (imm_J m) \<and> sint (imm_J m) \<le> 1048574"
proof -
  have eB: "even (sint (imm_B m))"
    by (simp add: even_sint_iff bit_imm_B)
  have eJ: "even (sint (imm_J m))"
    by (simp add: even_sint_iff bit_imm_J)
  have "- (2 ^ 12) \<le> sint (imm_B m) \<and> sint (imm_B m) < 2 ^ 12"
    by (rule sint_sign_ext) (auto simp add: bit_imm_B)
  moreover have "- (2 ^ 20) \<le> sint (imm_J m) \<and> sint (imm_J m) < 2 ^ 20"
    by (rule sint_sign_ext) (auto simp add: bit_imm_J)
  ultimately show ?thesis
    using eB eJ by simp presburger
qed

section \<open>The I-type immediate and the CSR accessor\<close>

lemma sint_imm_I: "sint (imm_I m) = signed_take_bit 11 (uint (sc_range m 31 20))"
proof (rule bit_eqI)
  fix n
  show "bit (sint (imm_I m)) n \<longleftrightarrow> bit (signed_take_bit 11 (uint (sc_range m 31 20))) n"
    by (cases "n < 32"; cases "n = 11")
      (auto simp add: bit_sint_iff bit_imm_I bit_signed_take_bit_iff bit_uint_iff
        bit_sc_range min_def add.commute)
qed

lemma uint_sc_range_less: "uint (sc_range m 31 20) < 4096"
proof -
  have "sc_range m 31 20 = take_bit 12 (sc_range m 31 20)"
    by (simp add: sc_range_def)
  then have "uint (sc_range m 31 20) = take_bit 12 (uint (sc_range m 31 20))"
    by (metis unsigned_take_bit_eq)
  also have "\<dots> < 2 ^ 12"
    by (rule take_bit_int_less_exp)
  finally show ?thesis by simp
qed

text \<open>
  C2, as stated, fails: at the word \<open>0x80000000\<close>, which has bit 31 set and bits 30
  down to 20 clear, \<open>imm_I()\<close> does not return -4096.
\<close>

theorem imm_I_sign_bit_only_counterexample:
  "bit (0x80000000 :: sc_int32) 31 \<and> sc_range 0x80000000 30 20 = 0
   \<and> sint (imm_I 0x80000000) \<noteq> - 4096"
  by (simp add: imm_I_def sc_range_def sc_bit_def to_int32_def)

text \<open>
  C2, amended. For every 32-bit word with bit 31 set and bits 30 down to 20 clear,
  \<open>imm_I()\<close> returns -2048: the 12-bit field holds \<open>0x800\<close>, and the sign extension
  sets bits 31 down to 12.
\<close>

theorem imm_I_sign_bit_only:
  assumes "bit m 31" and "sc_range m 30 20 = 0"
  shows "sint (imm_I m) = - 2048"
proof -
  have low: "\<not> bit m (n + 20)" if "n < 11" for n
    using that bit_sc_range [of m 30 20 n] assms(2) by (simp add: add.commute)
  have "imm_I m = NOT (mask 11)"
  proof (rule bit_eqI)
    fix n
    show "bit (imm_I m) n \<longleftrightarrow> bit (NOT (mask 11 :: 32 word)) n"
      using assms(1) low [of n]
      by (cases "n = 11") (auto simp add: bit_imm_I bit_not_iff bit_mask_iff)
  qed
  also have "NOT (mask 11 :: 32 word) = - 2048"
    by (simp add: mask_eq_exp_minus_1)
  finally show ?thesis by simp
qed

theorem imm_I_sign_bit_only_witness:
  "bit (0x800ABCDE :: sc_int32) 31 \<and> sc_range 0x800ABCDE 30 20 = 0
   \<and> sint (imm_I 0x800ABCDE) = - 2048"
proof -
  have b: "bit (0x800ABCDE :: sc_int32) 31"
    by simp
  have z: "sc_range 0x800ABCDE 30 20 = 0"
    by (simp add: sc_range_def)
  show ?thesis
    using b z imm_I_sign_bit_only [OF b z] by simp
qed

text \<open>
  C3, as stated, fails: at the word \<open>0x80000000\<close> the result of \<open>csr()\<close> is negative
  and differs from the zero-extended value 2048 of bits 31 down to 20.
\<close>

theorem csr_zero_extended_counterexample:
  "sint (csr 0x80000000) < 0
   \<and> sint (csr 0x80000000) \<noteq> uint (sc_range 0x80000000 31 20)"
  by (simp add: csr_def imm_I_def sc_range_def sc_bit_def to_int32_def)

text \<open>
  C3, amended. For every 32-bit word, \<open>csr()\<close> returns what \<open>imm_I()\<close> returns: the
  value of bits 31 down to 20 sign-extended from bit 31, a number from -2048 to 2047. It
  is the zero-extended value of the bit range when bit 31 is clear, and that value
  minus 4096 when bit 31 is set.
\<close>

theorem csr_sign_extended:
  "csr m = imm_I m
   \<and> - 2048 \<le> sint (csr m) \<and> sint (csr m) \<le> 2047
   \<and> sint (csr m) =
      (if bit m 31 then uint (sc_range m 31 20) - 4096 else uint (sc_range m 31 20))"
proof -
  let ?u = "uint (sc_range m 31 20)"
  have b11: "bit ?u 11 \<longleftrightarrow> bit m 31"
    by (simp add: bit_uint_iff bit_sc_range)
  have "take_bit 12 ?u = ?u"
    using uint_sc_range_less [of m] by (simp add: take_bit_int_eq_self)
  then have val: "sint (imm_I m) = (if bit m 31 then ?u - 4096 else ?u)"
    using signed_take_bit_eq_take_bit_minus [of 11 ?u]
    by (simp add: sint_imm_I b11)
  have "- (2 ^ 11) \<le> signed_take_bit 11 ?u \<and> signed_take_bit 11 ?u < 2 ^ 11"
    using signed_take_bit_int_greater_eq_minus_exp [of 11 ?u]
      signed_take_bit_int_less_exp [of 11 ?u] by blast
  then have "- (2 ^ 11) \<le> sint (imm_I m) \<and> sint (imm_I m) < 2 ^ 11"
    by (simp add: sint_imm_I)
  then show ?thesis
    using val by (simp add: csr_def)
qed

section \<open>Decoding\<close>

lemmas Codes_defs =
  LUI_def AUIPC_def JAL_def JALR_def
  BEQ_def BEQ_F_def BNE_F_def BLT_F_def BGE_F_def BLTU_F_def BGEU_F_def
  LB_def LB_F_def LH_F_def LW_F_def LBU_F_def LHU_F_def
  SB_def SB_F_def SH_F_def SW_F_def
  ADDI_def ADDI_F_def SLTI_F_def SLTIU_F_def XORI_F_def ORI_F_def ANDI_F_def
  SLLI_F_def SRLI_F_def SRLI_F7_def SRAI_F7_def
  ADD_def ADD_F_def SUB_F_def ADD_F7_def SUB_F7_def
  SLL_F_def SLT_F_def SLTU_F_def XOR_F_def SRL_F_def SRA_F_def SRL_F7_def SRA_F7_def
  OR_F_def AND_F_def

lemmas field_eval = opcode_def funct3_def funct7_def to_int32_def sc_range_def

lemma no_entry_decode_error:
  assumes "\<not> in_known_table m"
  shows "decode m = OP_ERROR"
  using assms
  unfolding in_known_table_def known_table_def decode_def
  by (simp add: Codes_defs)

text \<open>
  C1. \<open>decode()\<close> is a total function on 32-bit words: every word has exactly one
  tag of the enumeration \<open>opCodes\<close>, and a word whose opcode, funct3 and funct7 match no
  entry of the known table has the invalid tag \<open>OP_ERROR\<close>.
\<close>

theorem decode_total_invalid_tag:
  "(\<exists>!t. decode m = t) \<and> (\<not> in_known_table m \<longrightarrow> decode m = OP_ERROR)"
  using no_entry_decode_error [of m] by blast

theorem decode_total_invalid_tag_witness:
  "(\<exists>!t. decode 0x00003003 = t) \<and> \<not> in_known_table 0x00003003
   \<and> decode 0x00003003 = OP_ERROR"
proof -
  have "\<not> in_known_table 0x00003003"
    by (simp add: in_known_table_def known_table_def Codes_defs field_eval)
  then show ?thesis
    using decode_total_invalid_tag [of "0x00003003"] by blast
qed

text \<open>
  C5. In the register-arithmetic family and among the immediate shifts, where one
  funct3 value stands for two operations (\<open>0b000\<close> for ADD and SUB, \<open>0b101\<close> for SRL and
  SRA and for SRLI and SRAI), funct7 decides: \<open>0b0100000\<close> selects SUB, SRA and SRAI,
  and \<open>0b0000000\<close> selects ADD, SRL and SRLI.
\<close>

theorem decode_funct7_tie_break:
  "(opcode m = ADD \<and> funct3 m = 0b000 \<and> funct7 m = 0b0100000 \<longrightarrow> decode m = OP_SUB)
   \<and> (opcode m = ADD \<and> funct3 m = 0b000 \<and> funct7 m = 0b0000000 \<longrightarrow> decode m = OP_ADD)
   \<and> (opcode m = ADD \<and> funct3 m = 0b101 \<and> funct7 m = 0b0100000 \<longrightarrow> decode m = OP_SRA)
   \<and> (opcode m = ADD \<and> funct3 m = 0b101 \<and> funct7 m = 0b0000000 \<longrightarrow> decode m = OP_SRL)
   \<and> (opcode m = ADDI \<and> funct3 m = 0b101 \<and> funct7 m = 0b0100000 \<longrightarrow> decode m = OP_SRAI)
   \<and> (opcode m = ADDI \<and> funct3 m = 0b101 \<and> funct7 m = 0b0000000 \<longrightarrow> decode m = OP_SRLI)"
  by (simp add: decode_def Codes_defs)

theorem decode_funct7_tie_break_witness:
  "(opcode 0x40C58533 = ADD \<and> funct3 0x40C58533 = 0b000 \<and> funct7 0x40C58533 = 0b0100000
      \<and> decode 0x40C58533 = OP_SUB)
   \<and> (opcode 0x00C58533 = ADD \<and> funct3 0x00C58533 = 0b000 \<and> funct7 0x00C58533 = 0b0000000
      \<and> decode 0x00C58533 = OP_ADD)
   \<and> (opcode 0x40C5D533 = ADD \<and> funct3 0x40C5D533 = 0b101 \<and> funct7 0x40C5D533 = 0b0100000
      \<and> decode 0x40C5D533 = OP_SRA)
   \<and> (opcode 0x00C5D533 = ADD \<and> funct3 0x00C5D533 = 0b101 \<and> funct7 0x00C5D533 = 0b0000000
      \<and> decode 0x00C5D533 = OP_SRL)
   \<and> (opcode 0x4035D513 = ADDI \<and> funct3 0x4035D513 = 0b101 \<and> funct7 0x4035D513 = 0b0100000
      \<and> decode 0x4035D513 = OP_SRAI)
   \<and> (opcode 0x0035D513 = ADDI \<and> funct3 0x0035D513 = 0b101 \<and> funct7 0x0035D513 = 0b0000000
      \<and> decode 0x0035D513 = OP_SRLI)"
proof -
  have h1: "opcode 0x40C58533 = ADD \<and> funct3 0x40C58533 = 0b000 \<and> funct7 0x40C58533 = 0b0100000"
    by (simp add: field_eval ADD_def)
  have h2: "opcode 0x00C58533 = ADD \<and> funct3 0x00C58533 = 0b000 \<and> funct7 0x00C58533 = 0b0000000"
    by (simp add: field_eval ADD_def)
  have h3: "opcode 0x40C5D533 = ADD \<and> funct3 0x40C5D533 = 0b101 \<and> funct7 0x40C5D533 = 0b0100000"
    by (simp add: field_eval ADD_def)
  have h4: "opcode 0x00C5D533 = ADD \<and> funct3 0x00C5D533 = 0b101 \<and> funct7 0x00C5D533 = 0b0000000"
    by (simp add: field_eval ADD_def)
  have h5: "opcode 0x4035D513 = ADDI \<and> funct3 0x4035D513 = 0b101 \<and> funct7 0x4035D513 = 0b0100000"
    by (simp add: field_eval ADDI_def)
  have h6: "opcode 0x0035D513 = ADDI \<and> funct3 0x0035D513 = 0b101 \<and> funct7 0x0035D513 = 0b0000000"
    by (simp add: field_eval ADDI_def)
  have c1: "decode 0x40C58533 = OP_SUB"
    using h1 decode_funct7_tie_break [of "0x40C58533"] by simp
  have c2: "decode 0x00C58533 = OP_ADD"
    using h2 decode_funct7_tie_break [of "0x00C58533"] by simp
  have c3: "decode 0x40C5D533 = OP_SRA"
    using h3 decode_funct7_tie_break [of "0x40C5D533"] by simp
  have c4: "decode 0x00C5D533 = OP_SRL"
    using h4 decode_funct7_tie_break [of "0x00C5D533"] by simp
  have c5: "decode 0x4035D513 = OP_SRAI"
    using h5 decode_funct7_tie_break [of "0x4035D513"] by simp
  have c6: "decode 0x0035D513 = OP_SRLI"
    using h6 decode_funct7_tie_break [of "0x0035D513"] by simp
  show ?thesis
    by (intro conjI h1 [THEN conjunct1] h1 [THEN conjunct2, THEN conjunct1]
      h1 [THEN conjunct2, THEN conjunct2] c1
      h2 [THEN conjunct1] h2 [THEN conjunct2, THEN conjunct1]
      h2 [THEN conjunct2, THEN conjunct2] c2
      h3 [THEN conjunct1] h3 [THEN conjunct2, THEN conjunct1]
      h3 [THEN conjunct2, THEN conjunct2] c3
      h4 [THEN conjunct1] h4 [THEN conjunct2, THEN conjunct1]
      h4 [THEN conjunct2, THEN conjunct2] c4
      h5 [THEN conjunct1] h5 [THEN conjunct2, THEN conjunct1]
      h5 [THEN conjunct2, THEN conjunct2] c5
      h6 [THEN conjunct1] h6 [THEN conjunct2, THEN conjunct1]
      h6 [THEN conjunct2, THEN conjunct2] c6)
qed

text \<open>
  C8. The word \<open>0x00000013\<close> decodes to \<open>OP_ADDI\<close>, and its accessors return
  \<open>rd() = 0\<close>, \<open>rs1() = 0\<close> and \<open>imm_I() = 0\<close>.
\<close>

theorem nop_decodes_to_addi:
  "decode 0x00000013 = OP_ADDI \<and> sint (rd 0x00000013) = 0
   \<and> sint (rs1 0x00000013) = 0 \<and> sint (imm_I 0x00000013) = 0"
  by (simp add: decode_def Codes_defs field_eval rd_def rs1_def imm_I_def sc_bit_def)

section \<open>Round trip of the immediates\<close>

lemma bit_put_field:
  "bit (put_field w hi lo x) n \<longleftrightarrow>
     n < 32 \<and> (if lo \<le> n \<and> n \<le> hi then bit x (n - lo) else bit w n)"
  unfolding put_field_def
  by (auto simp add: bit_or_iff bit_and_iff bit_not_iff bit_push_bit_iff bit_mask_iff
    bit_take_bit_iff dest: bit32_bound)

lemma bit_disp_bits:
  "bit (disp_bits v hi lo) n \<longleftrightarrow> n < hi + 1 - lo \<and> lo + n < 32 \<and> bit v (lo + n)"
  unfolding disp_bits_def
  by (auto simp add: bit_take_bit_iff bit_drop_bit_eq bit_word_of_int_iff)

lemma int_sign_bits:
  fixes v :: int
  assumes "- (2 ^ k) \<le> v" and "v < 2 ^ k" and "k \<le> n"
  shows "bit v n \<longleftrightarrow> bit v k"
proof -
  have "signed_take_bit k v = v"
    using assms(1,2) by (simp add: signed_take_bit_int_eq_self)
  then have "bit v n \<longleftrightarrow> bit (signed_take_bit k v) n"
    by simp
  also have "\<dots> \<longleftrightarrow> bit v k"
    using assms(3) by (simp add: bit_signed_take_bit_iff min_def)
  finally show ?thesis .
qed

lemma sint_word_of_int_small:
  fixes v :: int
  assumes "- (2 ^ 31) \<le> v" and "v < 2 ^ 31"
  shows "sint (word_of_int v :: 32 word) = v"
  using assms by (simp add: sint_sbintrunc' signed_take_bit_int_eq_self)

lemma imm_I_encode_I:
  assumes "- 2048 \<le> v" and "v \<le> 2047"
  shows "imm_I (encode_I w v) = word_of_int v"
proof (rule bit_eqI)
  fix n
  have ext: "bit v n \<longleftrightarrow> bit v 11" if "11 \<le> n"
    using assms that by (intro int_sign_bits) simp_all
  show "bit (imm_I (encode_I w v)) n \<longleftrightarrow> bit (word_of_int v :: 32 word) n"
    using ext
    by (cases "n < 12")
      (auto simp add: bit_imm_I encode_I_def bit_put_field bit_disp_bits bit_word_of_int_iff)
qed

lemma imm_S_encode_S:
  assumes "- 2048 \<le> v" and "v \<le> 2047"
  shows "imm_S (encode_S w v) = word_of_int v"
proof (rule bit_eqI)
  fix n
  have ext: "bit v n \<longleftrightarrow> bit v 11" if "11 \<le> n"
    using assms that by (intro int_sign_bits) simp_all
  show "bit (imm_S (encode_S w v)) n \<longleftrightarrow> bit (word_of_int v :: 32 word) n"
    using ext
    by (cases "n < 5"; cases "n < 12")
      (auto simp add: bit_imm_S encode_S_def Let_def bit_put_field bit_disp_bits
        bit_word_of_int_iff)
qed

lemma imm_B_encode_B:
  assumes "even v" and "- 4096 \<le> v" and "v \<le> 4094"
  shows "imm_B (encode_B w v) = word_of_int v"
proof (rule bit_eqI)
  fix n
  have ext: "bit v n \<longleftrightarrow> bit v 12" if "12 \<le> n"
    using assms that by (intro int_sign_bits) simp_all
  have zero: "\<not> bit v 0"
    using assms(1) by (simp add: bit_0)
  show "bit (imm_B (encode_B w v)) n \<longleftrightarrow> bit (word_of_int v :: 32 word) n"
    using ext zero
    by (cases "n = 0"; cases "n < 5"; cases "n < 11"; cases "n = 11")
      (auto simp add: bit_imm_B encode_B_def Let_def bit_put_field bit_disp_bits
        bit_word_of_int_iff)
qed

lemma imm_J_encode_J:
  assumes "even v" and "- 1048576 \<le> v" and "v \<le> 1048574"
  shows "imm_J (encode_J w v) = word_of_int v"
proof (rule bit_eqI)
  fix n
  have ext: "bit v n \<longleftrightarrow> bit v 20" if "20 \<le> n"
    using assms that by (intro int_sign_bits) simp_all
  have zero: "\<not> bit v 0"
    using assms(1) by (simp add: bit_0)
  show "bit (imm_J (encode_J w v)) n \<longleftrightarrow> bit (word_of_int v :: 32 word) n"
    using ext zero
    by (cases "n = 0"; cases "n < 11"; cases "n = 11"; cases "n < 20")
      (auto simp add: bit_imm_J encode_J_def Let_def bit_put_field bit_disp_bits
        bit_word_of_int_iff)
qed

text \<open>
  C4. Round trip of the immediate encodings: for every signed displacement in the
  range of a format (I and S: -2048 to 2047; B: the even values from -4096 to 4094; J:
  the even values from -1048576 to 1048574), placing its bits into the field positions
  of the format within any 32-bit word and then applying the accessor of the format
  gives back the displacement.
\<close>

theorem immediate_round_trip:
  "(- 2048 \<le> v \<and> v \<le> 2047 \<longrightarrow> sint (imm_I (encode_I w v)) = v)
   \<and> (- 2048 \<le> v \<and> v \<le> 2047 \<longrightarrow> sint (imm_S (encode_S w v)) = v)
   \<and> (even v \<and> - 4096 \<le> v \<and> v \<le> 4094 \<longrightarrow> sint (imm_B (encode_B w v)) = v)
   \<and> (even v \<and> - 1048576 \<le> v \<and> v \<le> 1048574 \<longrightarrow> sint (imm_J (encode_J w v)) = v)"
proof (intro conjI impI)
  assume "- 2048 \<le> v \<and> v \<le> 2047"
  then show "sint (imm_I (encode_I w v)) = v"
    by (simp add: imm_I_encode_I sint_word_of_int_small)
next
  assume "- 2048 \<le> v \<and> v \<le> 2047"
  then show "sint (imm_S (encode_S w v)) = v"
    by (simp add: imm_S_encode_S sint_word_of_int_small)
next
  assume "even v \<and> - 4096 \<le> v \<and> v \<le> 4094"
  then show "sint (imm_B (encode_B w v)) = v"
    by (simp add: imm_B_encode_B sint_word_of_int_small)
next
  assume "even v \<and> - 1048576 \<le> v \<and> v \<le> 1048574"
  then show "sint (imm_J (encode_J w v)) = v"
    by (simp add: imm_J_encode_J sint_word_of_int_small)
qed

theorem immediate_round_trip_witness:
  "sint (imm_I (encode_I 0xDEADBEEF (- 2048))) = - 2048
   \<and> sint (imm_S (encode_S 0xDEADBEEF 2047)) = 2047
   \<and> sint (imm_B (encode_B 0xDEADBEEF (- 4096))) = - 4096
   \<and> sint (imm_J (encode_J 0xDEADBEEF 1048574)) = 1048574"
  using immediate_round_trip [of "- 2048" "0xDEADBEEF"]
    immediate_round_trip [of 2047 "0xDEADBEEF"]
    immediate_round_trip [of "- 4096" "0xDEADBEEF"]
    immediate_round_trip [of 1048574 "0xDEADBEEF"]
  by simp

section \<open>Memory transactions\<close>

lemma transact_fault:
  assumes "\<not> within_capacity (address txn) (data_length txn)"
  shows "transact LATENCY mem txn =
    \<lparr>status = Bounds_fault, mem_after = mem, payload_after = payload txn, latency = None\<rparr>"
  using assms by (simp add: transact_def)

lemma transact_completed:
  assumes "within_capacity (address txn) (data_length txn)"
  shows "status (transact LATENCY mem txn) = Completed"
  using assms by (simp add: transact_def split: direction.split)

lemma transact_keeps_size:
  assumes "valid_mem mem"
  shows "valid_mem (mem_after (transact LATENCY mem txn))"
proof (cases "within_capacity (address txn) (data_length txn)")
  case True
  let ?n = "word_count (data_length txn)"
  have "address txn + ?n \<le> length mem"
    using assms True by (simp add: within_capacity_def valid_mem_def)
  then have "address txn + min (length (payload txn)) ?n \<le> length mem"
    by arith
  then have "length (copy_in mem (address txn) ?n (payload txn)) = length mem"
    by (simp add: copy_in_def)
  then show ?thesis
    using assms True by (simp add: transact_def valid_mem_def split: direction.split)
next
  case False
  then show ?thesis
    using assms by (simp add: transact_fault)
qed

lemma transact_reads_words:
  assumes "valid_mem mem" and "within_capacity (address txn) (data_length txn)"
    and "direction txn = Read" and "i < word_count (data_length txn)"
  shows "payload_after (transact LATENCY mem txn) ! i = mem ! (address txn + i)"
proof -
  have "address txn + word_count (data_length txn) \<le> length mem"
    using assms(1,2) by (simp add: within_capacity_def valid_mem_def)
  then have "i < length mem - address txn" and "address txn + i < length mem"
    using assms(4) by arith+
  then show ?thesis
    using assms by (simp add: transact_def copy_out_def nth_append)
qed

text \<open>
  C7. The memory has a fixed capacity of 1024 words, which no transaction changes. A
  transaction whose address plus length does not lie within the range from 0 up to but
  excluding the capacity (the words it covers, from its address over its length, are
  not all addresses of the array), and in particular one whose address equals the
  capacity, fails with the bounds fault and neither reads nor writes: the backing array
  and the payload are what they were. A transaction that lies within the range, the
  last word included, completes.
\<close>

theorem transact_out_of_range_no_effect:
  "SIZE = 1024
   \<and> (valid_mem mem \<longrightarrow> valid_mem (mem_after (transact LATENCY mem txn)))
   \<and> (\<not> {address txn ..< address txn + word_count (data_length txn)} \<subseteq> {0 ..< SIZE} \<longrightarrow>
        status (transact LATENCY mem txn) = Bounds_fault
        \<and> mem_after (transact LATENCY mem txn) = mem
        \<and> payload_after (transact LATENCY mem txn) = payload txn)
   \<and> (address txn = SIZE \<longrightarrow>
        status (transact LATENCY mem txn) = Bounds_fault
        \<and> mem_after (transact LATENCY mem txn) = mem
        \<and> payload_after (transact LATENCY mem txn) = payload txn)
   \<and> (address txn < SIZE
        \<and> {address txn ..< address txn + word_count (data_length txn)} \<subseteq> {0 ..< SIZE} \<longrightarrow>
        status (transact LATENCY mem txn) = Completed)"
proof (intro conjI impI)
  show "SIZE = 1024"
    by (simp add: SIZE_def)
next
  assume "valid_mem mem"
  then show "valid_mem (mem_after (transact LATENCY mem txn))"
    by (rule transact_keeps_size)
next
  assume "\<not> {address txn ..< address txn + word_count (data_length txn)} \<subseteq> {0 ..< SIZE}"
  then have "\<not> within_capacity (address txn) (data_length txn)"
    by (simp add: within_capacity_def)
  then show "status (transact LATENCY mem txn) = Bounds_fault"
    and "mem_after (transact LATENCY mem txn) = mem"
    and "payload_after (transact LATENCY mem txn) = payload txn"
    by (simp_all add: transact_fault)
next
  assume "address txn = SIZE"
  then have "\<not> within_capacity (address txn) (data_length txn)"
    by (simp add: within_capacity_def)
  then show "status (transact LATENCY mem txn) = Bounds_fault"
    and "mem_after (transact LATENCY mem txn) = mem"
    and "payload_after (transact LATENCY mem txn) = payload txn"
    by (simp_all add: transact_fault)
next
  assume "address txn < SIZE
    \<and> {address txn ..< address txn + word_count (data_length txn)} \<subseteq> {0 ..< SIZE}"
  then have "within_capacity (address txn) (data_length txn)"
    by (auto simp add: within_capacity_def)
  then show "status (transact LATENCY mem txn) = Completed"
    by (rule transact_completed)
qed

theorem transact_out_of_range_no_effect_witness:
  "valid_mem (replicate 1023 0 @ [0xCAFE])
   \<and> address \<lparr>address = 1024, direction = Write, payload = [0xDEADBEEF],
        data_length = 4, debug = False\<rparr> = SIZE
   \<and> status (transact 10 (replicate 1023 0 @ [0xCAFE])
        \<lparr>address = 1024, direction = Write, payload = [0xDEADBEEF],
         data_length = 4, debug = False\<rparr>) = Bounds_fault
   \<and> mem_after (transact 10 (replicate 1023 0 @ [0xCAFE])
        \<lparr>address = 1024, direction = Write, payload = [0xDEADBEEF],
         data_length = 4, debug = False\<rparr>) = replicate 1023 0 @ [0xCAFE]
   \<and> \<not> {1023 ..< 1023 + word_count 8} \<subseteq> {0 ..< SIZE}
   \<and> status (transact 10 (replicate 1023 0 @ [0xCAFE])
        \<lparr>address = 1023, direction = Write, payload = [0xDEADBEEF, 0xDEADBEEF],
         data_length = 8, debug = False\<rparr>) = Bounds_fault
   \<and> mem_after (transact 10 (replicate 1023 0 @ [0xCAFE])
        \<lparr>address = 1023, direction = Write, payload = [0xDEADBEEF, 0xDEADBEEF],
         data_length = 8, debug = False\<rparr>) = replicate 1023 0 @ [0xCAFE]
   \<and> {1023 ..< 1023 + word_count 4} \<subseteq> {0 ..< SIZE}
   \<and> status (transact 10 (replicate 1023 0 @ [0xCAFE])
        \<lparr>address = 1023, direction = Read, payload = [0],
         data_length = 4, debug = False\<rparr>) = Completed"
proof -
  let ?mem = "replicate 1023 0 @ [0xCAFE :: int32_t]"
  let ?past = "\<lparr>address = 1024, direction = Write, payload = [0xDEADBEEF :: int32_t],
    data_length = 4, debug = False\<rparr>"
  let ?over = "\<lparr>address = 1023, direction = Write,
    payload = [0xDEADBEEF :: int32_t, 0xDEADBEEF], data_length = 8, debug = False\<rparr>"
  let ?last = "\<lparr>address = 1023, direction = Read, payload = [0 :: int32_t],
    data_length = 4, debug = False\<rparr>"
  have v: "valid_mem ?mem"
    by (simp add: valid_mem_def SIZE_def)
  have a: "address ?past = SIZE"
    by (simp add: SIZE_def)
  have o: "\<not> {1023 ..< 1023 + word_count 8} \<subseteq> {0 ..< SIZE}"
    by (simp add: word_count_def WORD_BYTES_def SIZE_def)
  have l: "{1023 ..< 1023 + word_count 4} \<subseteq> {0 ..< SIZE}"
    by (simp add: word_count_def WORD_BYTES_def SIZE_def)
  have l': "(1023 :: nat) < SIZE"
    by (simp add: SIZE_def)
  show ?thesis
    using v a o l l'
      transact_out_of_range_no_effect [where txn = ?past and LATENCY = 10 and mem = ?mem]
      transact_out_of_range_no_effect [where txn = ?over and LATENCY = 10 and mem = ?mem]
      transact_out_of_range_no_effect [where txn = ?last and LATENCY = 10 and mem = ?mem]
    by simp
qed

end
